theory Spec2Isabelle
  imports Main
begin

section \<open>Python string operations used by the script\<close>

text \<open>
  Python strings are modelled as HOL strings (lists of characters); the configuration
  document is taken to be ASCII.  \<open>None\<close> is the \<open>None\<close> of \<open>option\<close>.
\<close>

text \<open>\<open>s.split(sep)\<close> for a one-character separator: the pieces between the separators,
  an empty piece included (\<open>"".split(",") == [""]\<close>, \<open>"a,".split(",") == ["a", ""]\<close>).\<close>

fun str_split :: "char \<Rightarrow> string \<Rightarrow> string list" where
  "str_split sep [] = [[]]"
| "str_split sep (c # cs) =
     (if c = sep then [] # str_split sep cs
      else (case str_split sep cs of
              [] \<Rightarrow> [[c]]
            | p # ps \<Rightarrow> (c # p) # ps))"

text \<open>\<open>sep.join(parts)\<close>.\<close>

fun str_join :: "string \<Rightarrow> string list \<Rightarrow> string" where
  "str_join sep [] = []"
| "str_join sep [p] = p"
| "str_join sep (p # q # ps) = p @ sep @ str_join sep (q # ps)"

text \<open>\<open>s.count(sub)\<close>: the number of non-overlapping occurrences of \<open>sub\<close>, scanning from
  the left; for the empty \<open>sub\<close> Python answers \<open>len(s) + 1\<close>.\<close>

fun str_count :: "string \<Rightarrow> string \<Rightarrow> nat" where
  "str_count [] sub = (if sub = [] then 1 else 0)"
| "str_count (c # cs) sub =
     (if sub = [] then Suc (str_count cs sub)
      else if take (length sub) (c # cs) = sub
        then Suc (str_count (drop (length sub - 1) cs) sub)
      else str_count cs sub)"

text \<open>\<open>s.replace(old, new)\<close>: every non-overlapping occurrence of \<open>old\<close>, scanning from the
  left, becomes \<open>new\<close>; for the empty \<open>old\<close> Python puts \<open>new\<close> before every character and
  at the end.\<close>

fun str_replace :: "string \<Rightarrow> string \<Rightarrow> string \<Rightarrow> string" where
  "str_replace old new [] = (if old = [] then new else [])"
| "str_replace old new (c # cs) =
     (if old = [] then new @ c # str_replace old new cs
      else if take (length old) (c # cs) = old
        then new @ str_replace old new (drop (length old - 1) cs)
      else c # str_replace old new cs)"

text \<open>Decimal digits: \<open>str(n)\<close> for a natural number, \<open>c.isdigit()\<close> on ASCII, and \<open>int(s)\<close> on
  a string of digits.\<close>

definition digit_char :: "nat \<Rightarrow> char" where
  "digit_char d = ''0123456789'' ! (d mod 10)"

function str_of_nat :: "nat \<Rightarrow> string" where
  "str_of_nat n =
     (if n < 10 then [digit_char n] else str_of_nat (n div 10) @ [digit_char (n mod 10)])"
  by pat_completeness auto
termination
  by (relation "measure id") auto

declare str_of_nat.simps [simp del]

definition is_digit :: "char \<Rightarrow> bool" where
  "is_digit c = (c \<in> set ''0123456789'')"

definition digit_val :: "char \<Rightarrow> nat" where
  "digit_val c = of_char c - 48"

definition nat_of_digits :: "string \<Rightarrow> nat" where
  "nat_of_digits s = foldl (\<lambda>acc c. 10 * acc + digit_val c) 0 s"

section \<open>The peers field of a server record\<close>

text \<open>Lines 424--430 of \<open>parse_server_details\<close>: the text of the \<open>peers\<close> child
  (\<open>None\<close> when the child is missing) becomes the list of peer identifiers.\<close>

definition parse_peers :: "string option \<Rightarrow> string list" where
  "parse_peers peers =
     (case peers of
        None \<Rightarrow> []
      | Some p \<Rightarrow>
          if p = [] then []
          else if str_count p '','' = 0 then [p]
          else str_split CHR '','' p)"

text \<open>Lines 233--235 of \<open>main\<close>: the new identifier is appended to the list and the list is
  joined with commas; the result becomes the text of the \<open>peers\<close> child.\<close>

definition updated_peers :: "string list \<Rightarrow> string \<Rightarrow> string" where
  "updated_peers peers new_uuid = str_join '','' (peers @ [new_uuid])"

section \<open>The address arithmetic of Python's \<open>ipaddress\<close> module\<close>

text \<open>
  The script calls \<open>ipaddress.ip_network\<close>, \<open>ipaddress.ip_address\<close>, \<open>hosts()\<close>,
  \<open>prefixlen\<close> and \<open>network_address\<close> of the standard library.  The definitions below follow
  the IPv4 half of that module (CPython 3.10): an address is its 32-bit integer, a network
  is its network address and prefix length.  Every way of raising \<open>ValueError\<close>
  (\<open>AddressValueError\<close> and \<open>NetmaskValueError\<close> are subclasses of it) is the result \<open>None\<close>.

  The library tries a text as IPv4 first and as IPv6 second.  An IPv6 text has at least
  two colons, so on a text without a colon the second attempt always raises and the
  library's answer is that of its IPv4 half: there the definitions below are the library.
  On a text with a colon they give \<open>None\<close>, which need not be the library's answer.  Every
  statement below that rests on the result of parsing a text of unknown content therefore
  assumes \<open>ipv4_text\<close> of it.
\<close>

definition ipv4_text :: "string option \<Rightarrow> bool" where
  "ipv4_text address = (case address of None \<Rightarrow> True | Some s \<Rightarrow> CHR '':'' \<notin> set s)"

type_synonym ipv4 = nat

record ipv4_network =
  network_address :: ipv4
  prefixlen :: nat

text \<open>\<open>IPv4Address._parse_octet\<close>: one to three ASCII digits, no leading zero, at most 255.\<close>

definition parse_octet :: "string \<Rightarrow> nat option" where
  "parse_octet octet_str =
     (if octet_str = [] then None
      else if \<not> list_all is_digit octet_str then None
      else if length octet_str > 3 then None
      else if octet_str \<noteq> ''0'' \<and> hd octet_str = CHR ''0'' then None
      else if nat_of_digits octet_str > 255 then None
      else Some (nat_of_digits octet_str))"

text \<open>\<open>IPv4Address._ip_int_from_string\<close>: four octets separated by dots, big-endian.\<close>

definition ip_int_from_string :: "string \<Rightarrow> ipv4 option" where
  "ip_int_from_string ip_str =
     (if ip_str = [] then None
      else let octets = str_split CHR ''.'' ip_str in
        if length octets \<noteq> 4 then None
        else if list_all (\<lambda>octet. parse_octet octet \<noteq> None) octets
          then Some (foldl (\<lambda>acc octet. 256 * acc + the (parse_octet octet)) 0 octets)
        else None)"

text \<open>\<open>ipaddress.ip_address(s)\<close> for a string: a slash is refused.\<close>

definition ip_address :: "string \<Rightarrow> ipv4 option" where
  "ip_address s = (if CHR ''/'' \<in> set s then None else ip_int_from_string s)"

text \<open>\<open>_prefix_from_prefix_string\<close>: ASCII digits whose value is at most 32.\<close>

definition prefix_from_prefix_string :: "string \<Rightarrow> nat option" where
  "prefix_from_prefix_string prefixlen_str =
     (if prefixlen_str = [] \<or> \<not> list_all is_digit prefixlen_str then None
      else if nat_of_digits prefixlen_str \<le> 32 then Some (nat_of_digits prefixlen_str)
      else None)"

text \<open>\<open>_count_righthand_zero_bits(number, bits)\<close>: \<open>bits\<close> for zero, otherwise the number of
  trailing zero bits, at most \<open>bits\<close>.\<close>

fun count_righthand_zero_bits :: "nat \<Rightarrow> nat \<Rightarrow> nat" where
  "count_righthand_zero_bits number 0 = 0"
| "count_righthand_zero_bits number (Suc bits) =
     (if number = 0 then Suc bits
      else if odd number then 0
      else Suc (count_righthand_zero_bits (number div 2) bits))"

text \<open>\<open>_prefix_from_ip_int\<close>: the prefix length of a netmask given as an integer.\<close>

definition prefix_from_ip_int :: "nat \<Rightarrow> nat option" where
  "prefix_from_ip_int ip_int =
     (let trailing_zeroes = count_righthand_zero_bits ip_int 32;
          prefixlen = 32 - trailing_zeroes;
          leading_ones = ip_int div 2 ^ trailing_zeroes;
          all_ones = 2 ^ prefixlen - 1
      in if leading_ones \<noteq> all_ones then None else Some prefixlen)"

text \<open>\<open>_prefix_from_ip_string\<close>: a dotted netmask, or else a dotted hostmask (the bits
  inverted).\<close>

definition prefix_from_ip_string :: "string \<Rightarrow> nat option" where
  "prefix_from_ip_string ip_str =
     (case ip_int_from_string ip_str of
        None \<Rightarrow> None
      | Some ip_int \<Rightarrow>
          (case prefix_from_ip_int ip_int of
             Some p \<Rightarrow> Some p
           | None \<Rightarrow> prefix_from_ip_int (4294967295 - ip_int)))"

text \<open>\<open>_make_netmask\<close> for a string: the prefix-length form first, then the dotted form.\<close>

definition make_netmask :: "string \<Rightarrow> nat option" where
  "make_netmask arg =
     (case prefix_from_prefix_string arg of
        Some p \<Rightarrow> Some p
      | None \<Rightarrow> prefix_from_ip_string arg)"

text \<open>\<open>ipaddress.ip_network(address, strict)\<close>.  The text is split at slashes; more than one
  slash is refused; without a slash the prefix length is 32.  Host bits below the mask are
  an error when \<open>strict\<close> and are cleared otherwise.  The argument \<open>None\<close> (a missing
  field) is refused, as \<open>str(None)\<close> is no address.\<close>

definition ip_network :: "bool \<Rightarrow> string option \<Rightarrow> ipv4_network option" where
  "ip_network strict address =
     (case address of
        None \<Rightarrow> None
      | Some s \<Rightarrow>
          let addr = str_split CHR ''/'' s in
          if length addr > 2 then None
          else (case ip_int_from_string (hd addr) of
                  None \<Rightarrow> None
                | Some packed \<Rightarrow>
                    (case (if length addr > 1 then make_netmask (addr ! 1) else Some 32) of
                       None \<Rightarrow> None
                     | Some p \<Rightarrow>
                         let masked = packed - packed mod 2 ^ (32 - p) in
                         if masked \<noteq> packed
                         then (if strict then None
                               else Some \<lparr>network_address = masked, prefixlen = p\<rparr>)
                         else Some \<lparr>network_address = packed, prefixlen = p\<rparr>)))"

definition broadcast_address :: "ipv4_network \<Rightarrow> ipv4" where
  "broadcast_address net = network_address net + 2 ^ (32 - prefixlen net) - 1"

text \<open>\<open>IPv4Network.hosts()\<close> as a list: the addresses strictly between the network and the
  broadcast address; for a /31 both addresses of the network, for a /32 its one address.\<close>

definition hosts :: "ipv4_network \<Rightarrow> ipv4 list" where
  "hosts net =
     (if prefixlen net = 31 then [network_address net ..< broadcast_address net + 1]
      else if prefixlen net = 32 then [network_address net]
      else [network_address net + 1 ..< broadcast_address net])"

text \<open>\<open>str(address)\<close>: dotted decimal.\<close>

definition str_of_ip :: "ipv4 \<Rightarrow> string" where
  "str_of_ip a =
     str_join ''.'' (map str_of_nat
       [a div 16777216 mod 256, a div 65536 mod 256, a div 256 mod 256, a mod 256])"

section \<open>The document tree of \<open>xml.etree.ElementTree\<close>\<close>

text \<open>
  An \<open>Element\<close> has a tag, attributes in insertion order, an optional text (the characters
  between its start tag and its first child), an optional tail (the characters after its
  end tag, up to the next tag) and its children in document order.
\<close>

datatype element =
  Element (tag: string) (attrib: "(string \<times> string) list")
    (etext: "string option") (tail: "string option") (children: "element list")

text \<open>\<open>elem.find(name)\<close>: the first child with that tag.\<close>

definition find_child :: "element \<Rightarrow> string \<Rightarrow> element option" where
  "find_child elem name = List.find (\<lambda>e. tag e = name) (children elem)"

text \<open>\<open>elem.findtext(name)\<close>: the text of the first child with that tag, the empty string
  when that child has no text, \<open>None\<close> when there is no such child.\<close>

definition findtext :: "element \<Rightarrow> string \<Rightarrow> string option" where
  "findtext elem name =
     (case find_child elem name of
        None \<Rightarrow> None
      | Some e \<Rightarrow> (case etext e of None \<Rightarrow> Some [] | Some t \<Rightarrow> Some t))"

text \<open>\<open>elem.get(key)\<close>: the value of an attribute, \<open>None\<close> when absent.\<close>

definition get_attr :: "element \<Rightarrow> string \<Rightarrow> string option" where
  "get_attr elem key = map_of (attrib elem) key"

section \<open>Outcomes of a run\<close>

text \<open>
  The script ends a failed run with \<open>exit(code)\<close> after printing, or by an exception that
  nothing catches.  \<open>Exit code printed\<close> carries the lines printed by the failing branch.
\<close>

datatype py_exception =
  UnboundLocalError | IndexError | AttributeError | ValueError | TypeError | NameError
  | OSError

datatype failure = Exit int "string list" | Uncaught py_exception

section \<open>\<open>parse_server_details\<close>\<close>

record server_conf =
  sc_peers :: "string list"
  sc_pubkey :: "string option"
  sc_tunneladdress :: string
  sc_netmask :: nat
  sc_port :: "string option"

record client_conf =
  cc_net_range :: "ipv4 list"

text \<open>
  Lines 387--449.  \<open>error_message\<close> collects the labels of the fields that are missing.  When
  \<open>ip_network\<close> raises (line 399), the handler appends a label and the next statement, line
  404, reads the local \<open>net\<close> that was never assigned: \<open>UnboundLocalError\<close>, which nothing
  catches.  At lines 412--418 both \<open>ip_address\<close> and \<open>list.remove\<close> raise \<open>ValueError\<close>,
  which is passed over in silence; no other exception can arise there, so the label
  \<open>server ip\<close> is never appended.
\<close>

definition parse_server_details :: "element \<Rightarrow> failure + (server_conf \<times> client_conf)" where
  "parse_server_details server =
     (let pubkey = findtext server ''pubkey'';
          error_message1 = (if pubkey = None then [''public key (pubkey)''] else []);
          tunneladdress = findtext server ''tunneladdress'';
          error_message2 = error_message1 @ (if tunneladdress = None then [''tunneladdress''] else [])
      in case tunneladdress of
           None \<Rightarrow> Inl (Uncaught UnboundLocalError)
         | Some ta \<Rightarrow>
             (case ip_network False (Some ta) of
                None \<Rightarrow> Inl (Uncaught UnboundLocalError)
              | Some net \<Rightarrow>
                  let all_hosts = hosts net;
                      netmask = prefixlen net;
                      ta' = str_replace (''/'' @ str_of_nat netmask) [] ta;
                      net_range' =
                        (case ip_address ta' of
                           None \<Rightarrow> all_hosts
                         | Some a \<Rightarrow> if a \<in> set all_hosts then remove1 a all_hosts else all_hosts);
                      port = findtext server ''port'';
                      error_message3 = error_message2 @ (if port = None then [''port''] else []);
                      peers = parse_peers (findtext server ''peers'')
                  in if error_message3 \<noteq> []
                     then Inl (Exit (- 1)
                            [''We couldn't parse these fields:'',
                             str_join [CHR 0x0A] error_message3])
                     else Inr (\<lparr>sc_peers = peers, sc_pubkey = pubkey, sc_tunneladdress = ta',
                                 sc_netmask = netmask, sc_port = port\<rparr>,
                               \<lparr>cc_net_range = net_range'\<rparr>)))"

section \<open>Address allocation in \<open>main\<close>\<close>

text \<open>
  Lines 133--141: every client whose \<open>uuid\<close> attribute is in the server's peers list has
  the network address of its \<open>tunneladdress\<close> removed from \<open>net_range\<close>.  \<open>ip_network\<close> is
  called with its default \<open>strict=True\<close>; \<open>list.remove\<close> raises \<open>ValueError\<close> when the
  address is not in the list.  Both exceptions reach the bare \<open>except\<close>, which prints
  \<open>Failed...\<close> and exits.
\<close>

fun exclude_clients ::
  "string list \<Rightarrow> element list \<Rightarrow> ipv4 list \<Rightarrow> nat \<Rightarrow> failure + (ipv4 list \<times> nat)" where
  "exclude_clients peers [] net_range client_count = Inr (net_range, client_count)"
| "exclude_clients peers (client # clients) net_range client_count =
     (if (case get_attr client ''uuid'' of None \<Rightarrow> False | Some u \<Rightarrow> u \<in> set peers)
      then (case ip_network True (findtext client ''tunneladdress'') of
              None \<Rightarrow> Inl (Exit (- 1) [''Failed...''])
            | Some used \<Rightarrow>
                if network_address used \<in> set net_range
                then exclude_clients peers clients
                       (remove1 (network_address used) net_range) (client_count + 1)
                else Inl (Exit (- 1) [''Failed...'']))
      else exclude_clients peers clients net_range client_count)"

text \<open>Line 145: \<open>net_range[0]\<close> raises \<open>IndexError\<close> on the empty list; nothing catches it.\<close>

definition first_free :: "ipv4 list \<Rightarrow> failure + ipv4" where
  "first_free net_range = (case net_range of [] \<Rightarrow> Inl (Uncaught IndexError) | a # _ \<Rightarrow> Inr a)"

text \<open>Lines 127--146 together: the server's details, the exclusion of the listed clients'
  addresses, and the first address left.  The result is the server's configuration, the
  chosen address and the number of listed clients.\<close>

definition allocate :: "element \<Rightarrow> element list \<Rightarrow> failure + (server_conf \<times> ipv4 \<times> nat)" where
  "allocate server clients =
     (case parse_server_details server of
        Inl e \<Rightarrow> Inl e
      | Inr (server_conf, client_conf) \<Rightarrow>
          (case exclude_clients (sc_peers server_conf) clients (cc_net_range client_conf) 0 of
             Inl e \<Rightarrow> Inl e
           | Inr (net_range', client_count) \<Rightarrow>
               (case first_free net_range' of
                  Inl e \<Rightarrow> Inl e
                | Inr safe_ip \<Rightarrow> Inr (server_conf, safe_ip, client_count))))"

text \<open>The clients that the loop treats as peers of the server, and what it reads from
  them: the network address of each one's \<open>tunneladdress\<close>, \<open>None\<close> where it does not parse.\<close>

definition listed_clients :: "string list \<Rightarrow> element list \<Rightarrow> element list" where
  "listed_clients peers clients =
     filter (\<lambda>client. case get_attr client ''uuid'' of None \<Rightarrow> False | Some u \<Rightarrow> u \<in> set peers)
       clients"

definition client_address :: "element \<Rightarrow> ipv4 option" where
  "client_address client =
     map_option network_address (ip_network True (findtext client ''tunneladdress''))"

section \<open>Navigating and changing the tree\<close>

text \<open>
  The script holds references to nodes inside the tree and changes them in place.  Here a
  node is named by its path from the root (the index of a child at each level), and a
  change is an update at a path.
\<close>

fun get_node :: "element \<Rightarrow> nat list \<Rightarrow> element option" where
  "get_node e [] = Some e"
| "get_node e (i # p) =
     (if i < length (children e) then get_node (children e ! i) p else None)"

fun update_node :: "(element \<Rightarrow> element) \<Rightarrow> nat list \<Rightarrow> element \<Rightarrow> element" where
  "update_node f [] e = f e"
| "update_node f (i # p) e =
     (if i < length (children e)
      then Element (tag e) (attrib e) (etext e) (tail e)
             ((children e)[i := update_node f p (children e ! i)])
      else e)"

definition set_text :: "string option \<Rightarrow> element \<Rightarrow> element" where
  "set_text t e = Element (tag e) (attrib e) t (tail e) (children e)"

definition set_tail :: "string option \<Rightarrow> element \<Rightarrow> element" where
  "set_tail t e = Element (tag e) (attrib e) (etext e) t (children e)"

text \<open>One step of an ElementPath: from every node found so far, in order, its children that
  satisfy the selector, in document order.\<close>

definition select_children ::
  "element \<Rightarrow> (element \<Rightarrow> bool) \<Rightarrow> nat list list \<Rightarrow> nat list list" where
  "select_children root sel paths =
     concat (map (\<lambda>p. case get_node root p of
                         None \<Rightarrow> []
                       | Some e \<Rightarrow> map (\<lambda>i. p @ [i])
                                    (filter (\<lambda>i. sel (children e ! i)) [0..<length (children e)]))
                 paths)"

text \<open>\<open>root.findall("./t1/t2/.../tn")\<close>: a chain of child steps by tag, starting at the root.\<close>

definition find_tags :: "element \<Rightarrow> string list \<Rightarrow> nat list list" where
  "find_tags root tags = foldl (\<lambda>paths t. select_children root (\<lambda>e. tag e = t) paths) [[]] tags"

text \<open>\<open>"".join(e.itertext())\<close>: the text of a node and of everything below it, with the tails
  of the nodes below.\<close>

fun itertext :: "element \<Rightarrow> string" where
  "itertext (Element t a x l cs) =
     (case x of None \<Rightarrow> [] | Some s \<Rightarrow> s) @
     concat (map (\<lambda>c. itertext c @ (case tail c of None \<Rightarrow> [] | Some s \<Rightarrow> s)) cs)"

text \<open>The predicate \<open>[instance='v']\<close> of an ElementPath: some child tagged \<open>instance\<close> whose
  whole text is \<open>v\<close>.\<close>

definition has_instance :: "string \<Rightarrow> element \<Rightarrow> bool" where
  "has_instance v e = list_ex (\<lambda>c. tag c = ''instance'' \<and> itertext c = v) (children e)"

definition nodes_at :: "element \<Rightarrow> nat list list \<Rightarrow> element list" where
  "nodes_at root paths = List.map_filter (get_node root) paths"

section \<open>\<open>add_formatted_subelement\<close>\<close>

text \<open>\<open>s * n\<close> for a string.\<close>

definition str_times :: "string \<Rightarrow> nat \<Rightarrow> string" where
  "str_times s n = concat (replicate n s)"

text \<open>
  Lines 331--378.  The new element is appended to \<open>root\<close>; \<open>children\<close> is the dictionary of
  its child tags and texts, in insertion order.  A method called on \<open>None\<close> raises
  \<open>AttributeError\<close>; \<open>None\<close> passed to \<open>str.replace\<close> raises \<open>TypeError\<close>.  After the new
  element is built, every child of \<open>root\<close>, old and new, gets the same tail (line 375),
  and the last one, the new element, the shorter tail of line 378.
\<close>

definition add_formatted_subelement ::
  "element \<Rightarrow> string \<Rightarrow> (string \<times> string) list \<Rightarrow> (string \<times> string option) list \<Rightarrow> string
     \<Rightarrow> failure + element" where
  "add_formatted_subelement root name attrs kids indent0 =
     (let root_tail = tail root;
          root_text = etext root;
          indent_result =
            (if indent0 = ''auto''
             then (if length (children root) > 0
                   then (case etext (last (children root)) of
                           None \<Rightarrow> Inl (Uncaught AttributeError)
                         | Some t \<Rightarrow>
                             (case tail (last (children root)) of
                                None \<Rightarrow> Inl (Uncaught TypeError)
                              | Some l \<Rightarrow> Inr (str_replace l [] t)))
                   else (case root_text of
                           None \<Rightarrow> Inl (Uncaught AttributeError)
                         | Some t \<Rightarrow>
                             (case root_tail of
                                None \<Rightarrow> Inl (Uncaught TypeError)
                              | Some l \<Rightarrow>
                                  let i = str_replace l [] t in Inr (take (length i div 2) i))))
             else Inr indent0)
      in case indent_result of
           Inl e \<Rightarrow> Inl e
         | Inr indent \<Rightarrow>
             (case root_tail of
                None \<Rightarrow> Inl (Uncaught AttributeError)
              | Some rt \<Rightarrow>
                  let level = str_count rt indent + 1;
                      element_level = level + 1;
                      child_level = level + 2;
                      new_children = map (\<lambda>(key, value). Element key [] value None []) kids;
                      padded =
                        (if length new_children > 0
                         then map (set_tail (Some (CHR 0x0A # str_times indent child_level)))
                                (butlast new_children) @
                              [set_tail (Some (CHR 0x0A # str_times indent element_level))
                                 (last new_children)]
                         else []);
                      element =
                        Element name attrs
                          (if length new_children > 0
                           then Some (CHR 0x0A # str_times indent child_level) else None)
                          (Some (CHR 0x0A # str_times indent level))
                          padded
                  in Inr (Element (tag root) (attrib root) (etext root) (tail root)
                            (map (set_tail (Some (CHR 0x0A # str_times indent element_level)))
                               (children root) @ [element]))))"

section \<open>Writing the tree: \<open>ElementTree.write\<close>\<close>

text \<open>
  \<open>tree.write(path)\<close> with its defaults: no XML declaration, \<open>short_empty_elements=True\<close>.
  \<open>_escape_cdata\<close> and \<open>_escape_attrib\<close> are these replacements.
\<close>

definition escape_cdata :: "string \<Rightarrow> string" where
  "escape_cdata s =
     concat (map (\<lambda>c. if c = CHR ''&'' then ''&amp;''
                       else if c = CHR ''<'' then ''&lt;''
                       else if c = CHR ''>'' then ''&gt;''
                       else [c]) s)"

definition escape_attrib :: "string \<Rightarrow> string" where
  "escape_attrib s =
     concat (map (\<lambda>c. if c = CHR ''&'' then ''&amp;''
                       else if c = CHR ''<'' then ''&lt;''
                       else if c = CHR ''>'' then ''&gt;''
                       else if c = CHR 0x22 then ''&quot;''
                       else if c = CHR 0x0D then ''&#13;''
                       else if c = CHR 0x0A then ''&#10;''
                       else if c = CHR 0x09 then ''&#09;''
                       else [c]) s)"

definition serialize_attrs :: "(string \<times> string) list \<Rightarrow> string" where
  "serialize_attrs items =
     concat (map (\<lambda>(k, v). '' '' @ k @ [CHR ''='', CHR 0x22] @ escape_attrib v @ [CHR 0x22]) items)"

text \<open>\<open>_serialize_xml\<close>: an element without text and without children is written in the
  short form, with a space before the slash; the tail follows the element.\<close>

fun serialize_xml :: "element \<Rightarrow> string" where
  "serialize_xml (Element t a x l cs) =
     ''<'' @ t @ serialize_attrs a @
     (if (x \<noteq> None \<and> x \<noteq> Some []) \<or> cs \<noteq> []
      then ''>'' @ (case x of None \<Rightarrow> [] | Some s \<Rightarrow> escape_cdata s) @
           concat (map serialize_xml cs) @ ''</'' @ t @ ''>''
      else '' />'') @
     (case l of None \<Rightarrow> [] | Some s \<Rightarrow> escape_cdata s)"

section \<open>Reading the tree: \<open>ElementTree.fromstring\<close>\<close>

text \<open>
  \<open>ET.fromstring\<close> runs the expat parser and feeds its events to a \<open>TreeBuilder\<close>.  The
  definitions below cover this fragment of XML: processing instructions (the XML
  declaration among them), elements, attributes in single or double quotes, character
  data, the five predefined entities and decimal character references.  Comments,
  CDATA sections, document type declarations, namespaces, hexadecimal references, a
  \<open>>\<close> inside an attribute value and characters outside ASCII are outside the fragment; a
  document that uses them, like a document that is not well-formed, has the result
  \<open>None\<close>.
\<close>

datatype token = Start string "(string \<times> string) list" | End string | Data string

definition is_space :: "char \<Rightarrow> bool" where
  "is_space c = (c = CHR '' '' \<or> c = CHR 0x09 \<or> c = CHR 0x0A \<or> c = CHR 0x0D)"

definition is_name_start :: "char \<Rightarrow> bool" where
  "is_name_start c =
     (c \<in> set ''abcdefghijklmnopqrstuvwxyzABCDEFGHIJKLMNOPQRSTUVWXYZ_'')"

definition is_name_char :: "char \<Rightarrow> bool" where
  "is_name_char c = (is_name_start c \<or> is_digit c \<or> c = CHR ''-'' \<or> c = CHR ''.'')"

definition is_name :: "string \<Rightarrow> bool" where
  "is_name s = (s \<noteq> [] \<and> is_name_start (hd s) \<and> list_all is_name_char s)"

text \<open>Line ends are normalised before parsing: CR LF and a lone CR become LF.\<close>

fun normalize_newlines :: "string \<Rightarrow> string" where
  "normalize_newlines [] = []"
| "normalize_newlines [c] = (if c = CHR 0x0D then [CHR 0x0A] else [c])"
| "normalize_newlines (c # d # cs) =
     (if c = CHR 0x0D \<and> d = CHR 0x0A then CHR 0x0A # normalize_newlines cs
      else if c = CHR 0x0D then CHR 0x0A # normalize_newlines (d # cs)
      else c # normalize_newlines (d # cs))"

text \<open>The character an entity or character reference stands for, from the text between
  \<open>&\<close> and \<open>;\<close>.\<close>

definition entity :: "string \<Rightarrow> char option" where
  "entity name =
     (if name = ''amp'' then Some CHR ''&''
      else if name = ''lt'' then Some CHR ''<''
      else if name = ''gt'' then Some CHR ''>''
      else if name = ''quot'' then Some CHR 0x22
      else if name = ''apos'' then Some CHR 0x27
      else (case name of
              [] \<Rightarrow> None
            | h # ds \<Rightarrow>
                if h = CHR ''#'' \<and> ds \<noteq> [] \<and> list_all is_digit ds \<and> length ds \<le> 3
                   \<and> (nat_of_digits ds \<in> {9, 10, 13}
                        \<or> (32 \<le> nat_of_digits ds \<and> nat_of_digits ds < 128))
                then Some (char_of (nat_of_digits ds))
                else None))"

text \<open>Character data with its references replaced.  The first argument is the reference
  being read, if any.  In an attribute value (\<open>attr\<close>) a literal tab or line feed becomes a
  space, and \<open><\<close> is not allowed.\<close>

fun unescape :: "bool \<Rightarrow> string option \<Rightarrow> string \<Rightarrow> string option" where
  "unescape attr None [] = Some []"
| "unescape attr (Some acc) [] = None"
| "unescape attr None (c # cs) =
     (if c = CHR ''&'' then unescape attr (Some []) cs
      else if c = CHR ''<'' then None
      else if attr \<and> (c = CHR 0x09 \<or> c = CHR 0x0A)
        then map_option ((#) CHR '' '') (unescape attr None cs)
      else map_option ((#) c) (unescape attr None cs))"
| "unescape attr (Some acc) (c # cs) =
     (if c = CHR '';''
      then (case entity (rev acc) of
              None \<Rightarrow> None
            | Some ch \<Rightarrow> map_option ((#) ch) (unescape attr None cs))
      else unescape attr (Some (c # acc)) cs)"

text \<open>The attributes of a start tag, read from the text after the tag name.  The states:
  between attributes; in a name; after a name, before \<open>=\<close>; after \<open>=\<close>, before the quote;
  in a value; after a value; after the closing slash.  The result is the attributes with
  their raw values and whether the tag closes itself.\<close>

datatype attr_state =
  Between | In_name string | After_name string | Before_value string
  | In_value string char string | After_value | After_slash

fun lex_attrs :: "attr_state \<Rightarrow> string \<Rightarrow> ((string \<times> string) list \<times> bool) option" where
  "lex_attrs Between [] = Some ([], False)"
| "lex_attrs After_value [] = Some ([], False)"
| "lex_attrs After_slash [] = Some ([], True)"
| "lex_attrs st [] = None"
| "lex_attrs Between (c # cs) =
     (if is_space c then lex_attrs Between cs
      else if c = CHR ''/'' then lex_attrs After_slash cs
      else if is_name_start c then lex_attrs (In_name [c]) cs
      else None)"
| "lex_attrs (In_name n) (c # cs) =
     (if is_name_char c then lex_attrs (In_name (n @ [c])) cs
      else if is_space c then lex_attrs (After_name n) cs
      else if c = CHR ''='' then lex_attrs (Before_value n) cs
      else None)"
| "lex_attrs (After_name n) (c # cs) =
     (if is_space c then lex_attrs (After_name n) cs
      else if c = CHR ''='' then lex_attrs (Before_value n) cs
      else None)"
| "lex_attrs (Before_value n) (c # cs) =
     (if is_space c then lex_attrs (Before_value n) cs
      else if c = CHR 0x22 \<or> c = CHR 0x27 then lex_attrs (In_value n c []) cs
      else None)"
| "lex_attrs (In_value n q v) (c # cs) =
     (if c = q
      then (case lex_attrs After_value cs of
              None \<Rightarrow> None
            | Some (items, closed) \<Rightarrow> Some ((n, v) # items, closed))
      else lex_attrs (In_value n q (v @ [c])) cs)"
| "lex_attrs After_value (c # cs) =
     (if is_space c then lex_attrs Between cs
      else if c = CHR ''/'' then lex_attrs After_slash cs
      else None)"
| "lex_attrs After_slash (c # cs) = None"

text \<open>The values of the attributes with their references replaced; \<open>None\<close> when one of
  them is malformed.\<close>

fun unescape_items :: "(string \<times> string) list \<Rightarrow> (string \<times> string) list option" where
  "unescape_items [] = Some []"
| "unescape_items ((k, v) # items) =
     (case unescape True None v of
        None \<Rightarrow> None
      | Some v' \<Rightarrow> map_option ((#) (k, v')) (unescape_items items))"

definition rstrip :: "string \<Rightarrow> string" where
  "rstrip s = rev (dropWhile is_space (rev s))"

text \<open>The tokens of one tag, from the text between \<open><\<close> and \<open>>\<close>: an end tag, a processing
  instruction (no token), or a start tag, followed by its end when it closes itself.  An
  attribute may occur once; an attribute \<open>xmlns\<close> declares a namespace and is outside the
  fragment.\<close>

definition lex_tag :: "string \<Rightarrow> token list option" where
  "lex_tag body =
     (case body of
        [] \<Rightarrow> None
      | c # cs \<Rightarrow>
          if c = CHR ''/'' then (if is_name (rstrip cs) then Some [End (rstrip cs)] else None)
          else if c = CHR ''?'' then (if cs \<noteq> [] \<and> last cs = CHR ''?'' then Some [] else None)
          else
            let name = takeWhile is_name_char body;
                rest = dropWhile is_name_char body
            in if \<not> is_name name then None
               else (case lex_attrs After_value rest of
                       None \<Rightarrow> None
                     | Some (raw, closed) \<Rightarrow>
                         (case unescape_items raw of
                            None \<Rightarrow> None
                          | Some items \<Rightarrow>
                              if \<not> distinct (map fst items) \<or> ''xmlns'' \<in> set (map fst items)
                              then None
                              else Some (Start name items # (if closed then [End name] else [])))))"

text \<open>The events of a document: tags, and the runs of character data between them.\<close>

function lex :: "string \<Rightarrow> token list option" where
  "lex [] = Some []"
| "lex (c # cs) =
     (if c = CHR ''<''
      then (if dropWhile (\<lambda>x. x \<noteq> CHR ''>'') cs = [] then None
            else (case lex_tag (takeWhile (\<lambda>x. x \<noteq> CHR ''>'') cs) of
                    None \<Rightarrow> None
                  | Some ts \<Rightarrow>
                      map_option ((@) ts) (lex (tl (dropWhile (\<lambda>x. x \<noteq> CHR ''>'') cs)))))
      else (case unescape False None (c # takeWhile (\<lambda>x. x \<noteq> CHR ''<'') cs) of
              None \<Rightarrow> None
            | Some s \<Rightarrow> map_option ((#) (Data s)) (lex (dropWhile (\<lambda>x. x \<noteq> CHR ''<'') cs))))"
  by pat_completeness auto
termination
proof (relation "measure length")
  show "wf (measure length)" by simp
next
  fix c :: char and cs :: string and ts
  show "(tl (dropWhile (\<lambda>x. x \<noteq> CHR ''>'') cs), c # cs) \<in> measure length"
    using length_dropWhile_le [of "\<lambda>x. x \<noteq> CHR ''>''" cs] by simp
next
  fix c :: char and cs :: string and s
  show "(dropWhile (\<lambda>x. x \<noteq> CHR ''<'') cs, c # cs) \<in> measure length"
    using length_dropWhile_le [of "\<lambda>x. x \<noteq> CHR ''<''" cs] by simp
qed

declare lex.simps [simp del]

text \<open>
  The \<open>TreeBuilder\<close>.  \<open>frames\<close> are the elements that are open, innermost first, each with
  the children it has so far.  Character data goes to the text of the innermost open
  element, or, after an end tag (\<open>tail_mode\<close>), to the tail of the element closed last.
  Outside the document element only white space is allowed, and it is dropped: the
  document element has no tail.
\<close>

record builder =
  frames :: "element list"
  tail_mode :: bool
  result :: "element option"

definition append_text :: "string option \<Rightarrow> string \<Rightarrow> string option" where
  "append_text old s = (case old of None \<Rightarrow> Some s | Some t \<Rightarrow> Some (t @ s))"

definition add_child :: "element \<Rightarrow> element \<Rightarrow> element" where
  "add_child parent e =
     Element (tag parent) (attrib parent) (etext parent) (tail parent) (children parent @ [e])"

definition add_data :: "bool \<Rightarrow> string \<Rightarrow> element \<Rightarrow> element" where
  "add_data to_tail s cur =
     (if to_tail
      then Element (tag cur) (attrib cur) (etext cur) (tail cur)
             (butlast (children cur) @
              [set_tail (append_text (tail (last (children cur))) s) (last (children cur))])
      else set_text (append_text (etext cur) s) cur)"

fun build :: "builder \<Rightarrow> token list \<Rightarrow> element option" where
  "build b [] = (if frames b = [] then result b else None)"
| "build b (Start t a # ts) =
     (if frames b = [] \<and> result b \<noteq> None then None
      else build \<lparr>frames = Element t a None None [] # frames b, tail_mode = False,
                  result = result b\<rparr> ts)"
| "build b (End t # ts) =
     (case frames b of
        [] \<Rightarrow> None
      | cur # below \<Rightarrow>
          if tag cur \<noteq> t then None
          else (case below of
                  [] \<Rightarrow> build \<lparr>frames = [], tail_mode = True, result = Some cur\<rparr> ts
                | parent # rest \<Rightarrow>
                    build \<lparr>frames = add_child parent cur # rest, tail_mode = True,
                           result = result b\<rparr> ts))"
| "build b (Data s # ts) =
     (case frames b of
        [] \<Rightarrow> (if list_all is_space s then build b ts else None)
      | cur # below \<Rightarrow>
          build \<lparr>frames = add_data (tail_mode b) s cur # below, tail_mode = tail_mode b,
                 result = result b\<rparr> ts)"

definition fromstring :: "string \<Rightarrow> element option" where
  "fromstring text =
     (case lex (normalize_newlines text) of
        None \<Rightarrow> None
      | Some ts \<Rightarrow> build \<lparr>frames = [], tail_mode = False, result = None\<rparr> ts)"

section \<open>The settings and the outside world of a run\<close>

definition default_endpoint :: string where "default_endpoint = ''server.address.com''"
definition default_dns :: string where "default_dns = ''192.168.0.1''"
definition default_network :: string where "default_network = ''192.168.0.0/24''"
definition default_instance :: string where "default_instance = ''0''"
definition user_prompts :: bool where "user_prompts = True"
definition package_prompt :: bool where "package_prompt = True"
definition opnsense_config_xml :: string where "opnsense_config_xml = ''/conf/config.xml''"

text \<open>\<open>default_client.format(n)\<close> with \<open>default_client = "client{}"\<close>.\<close>

definition default_client :: "nat \<Rightarrow> string" where
  "default_client n = ''client'' @ str_of_nat n"

text \<open>The backup path of lines 206 and 248.\<close>

definition backup_path :: string where
  "backup_path = str_replace ''.xml'' ''.wgback'' opnsense_config_xml"

text \<open>
  What a run receives from outside: the operator's answers, the identifier from
  \<open>uuid.uuid4()\<close>, the three keys from the \<open>wg\<close> tool (\<open>None\<close> when a call fails), and for each
  file operation whether it succeeds.  A failed operation leaves its destination with the
  content given (\<open>None\<close>: no file), which may be a part of what was to be written.
\<close>

datatype io_result = Succeeds | Fails "string option"

record env =
  add_pkg :: string
  instance_input :: string
  uuid4 :: string
  wg_keys :: "(string \<times> string \<times> string) option"
  endpoint_input :: string
  dns_input :: string
  client_name_input :: string
  you_sure :: string
  backup_io :: io_result
  write_io :: io_result
  restore_io :: io_result
  profile_io :: io_result

text \<open>The files on disk, and the history of a run from the backup step on: what was
  printed and which file operations were carried out.\<close>

datatype event =
  Printed string | Copied string string | Copy_failed string string
  | Written string | Write_failed string

record world =
  files :: "string \<Rightarrow> string option"
  trace :: "event list"

definition log :: "event \<Rightarrow> world \<Rightarrow> world" where
  "log ev w = w\<lparr>trace := trace w @ [ev]\<rparr>"

text \<open>\<open>shutil.copy2(src, dst)\<close>: fails when the source is missing or is the destination.\<close>

definition copy2 :: "io_result \<Rightarrow> string \<Rightarrow> string \<Rightarrow> world \<Rightarrow> bool \<times> world" where
  "copy2 io src dst w =
     (case files w src of
        None \<Rightarrow> (False, log (Copy_failed src dst) w)
      | Some content \<Rightarrow>
          if src = dst then (False, log (Copy_failed src dst) w)
          else (case io of
                  Succeeds \<Rightarrow>
                    (True, log (Copied src dst) (w\<lparr>files := (files w)(dst \<mapsto> content)\<rparr>))
                | Fails left \<Rightarrow>
                    (False, log (Copy_failed src dst) (w\<lparr>files := (files w)(dst := left)\<rparr>))))"

text \<open>Opening a file for writing and writing \<open>content\<close> to it.\<close>

definition write_file :: "io_result \<Rightarrow> string \<Rightarrow> string \<Rightarrow> world \<Rightarrow> bool \<times> world" where
  "write_file io path content w =
     (case io of
        Succeeds \<Rightarrow> (True, log (Written path) (w\<lparr>files := (files w)(path \<mapsto> content)\<rparr>))
      | Fails left \<Rightarrow> (False, log (Write_failed path) (w\<lparr>files := (files w)(path := left)\<rparr>)))"

text \<open>\<open>input(prompt) or default\<close>.\<close>

definition input_or :: "string \<Rightarrow> string \<Rightarrow> string" where
  "input_or answer dflt = (if answer = [] then dflt else answer)"

text \<open>\<open>s.lower()\<close> and \<open>s.upper()\<close> on ASCII.\<close>

definition py_lower :: "string \<Rightarrow> string" where
  "py_lower s =
     map (\<lambda>c. if 65 \<le> (of_char c :: nat) \<and> (of_char c :: nat) \<le> 90
               then char_of (of_char c + 32 :: nat) else c) s"

definition py_upper :: "string \<Rightarrow> string" where
  "py_upper s =
     map (\<lambda>c. if 97 \<le> (of_char c :: nat) \<and> (of_char c :: nat) \<le> 122
               then char_of (of_char c - 32 :: nat) else c) s"

text \<open>\<open>int(s)\<close> on ASCII: white space around, an optional sign, then digits, which single
  underscores may separate.  \<open>None\<close> is \<open>ValueError\<close>.\<close>

definition py_int :: "string \<Rightarrow> int option" where
  "py_int s =
     (let stripped = dropWhile is_space (rstrip s);
          negative = (stripped \<noteq> [] \<and> hd stripped = CHR ''-'');
          body = (if stripped \<noteq> [] \<and> (hd stripped = CHR ''-'' \<or> hd stripped = CHR ''+'')
                  then tl stripped else stripped);
          groups = str_split CHR ''_'' body
      in if list_all (\<lambda>g. g \<noteq> [] \<and> list_all is_digit g) groups
         then Some ((if negative then - 1 else 1) * int (nat_of_digits (concat groups)))
         else None)"

text \<open>\<open>user_quit\<close>, lines 383--385.\<close>

definition user_quit :: failure where
  "user_quit = Exit 0 [''User has quit without making changes.'']"

text \<open>\<open>parse_actions\<close>, lines 380--381, and the two actions of the package menu.\<close>

datatype action = Install_packages | User_quit

definition parse_actions :: "string \<Rightarrow> (string \<times> action) list \<Rightarrow> action option" where
  "parse_actions selection actions = map_of actions (py_lower selection)"

section \<open>The steps of \<open>main\<close>\<close>

text \<open>Lines 50--65.  Installing the packages only decides whether a QR code is shown at
  the end; quitting ends the run.\<close>

definition package_step :: "env \<Rightarrow> failure option" where
  "package_step env =
     (if package_prompt
      then (case parse_actions (add_pkg env) [(''y'', Install_packages), (''q'', User_quit)] of
              Some User_quit \<Rightarrow> Some user_quit
            | _ \<Rightarrow> None)
      else None)"

definition servers_path :: "string list" where
  "servers_path = [''OPNsense'', ''wireguard'', ''server'', ''servers'']"

text \<open>Lines 90--125: the servers are listed (\<open>server.find('name').text\<close> raises
  \<open>AttributeError\<close> when the child is missing), the instance is asked for and checked, and
  the first server with that instance is taken.  The result is the server's path.\<close>

definition choose_server :: "env \<Rightarrow> element \<Rightarrow> failure + nat list" where
  "choose_server env root =
     (let servers = select_children root (\<lambda>e. True) (find_tags root servers_path);
          servers_count = length servers
      in if servers_count = 0
         then Inl (Exit (- 1) [''Could not find any server instances.''])
         else if list_ex (\<lambda>server. find_child server ''name'' = None
                                  \<or> find_child server ''instance'' = None)
                   (nodes_at root servers)
         then Inl (Uncaught AttributeError)
         else
           let this_instance =
                 (if user_prompts then input_or (instance_input env) default_instance
                  else default_instance)
           in if this_instance = [] \<or> py_lower this_instance \<noteq> py_upper this_instance
              then Inl user_quit
              else (case py_int this_instance of
                      None \<Rightarrow> Inl (Uncaught ValueError)
                    | Some n \<Rightarrow>
                        if n > int servers_count then Inl user_quit
                        else (case select_children root (has_instance this_instance)
                                     (find_tags root servers_path) of
                                [] \<Rightarrow> Inl (Uncaught IndexError)
                              | p # _ \<Rightarrow> Inr p)))"

text \<open>What lines 127--201 settle before anything is written.\<close>

record plan =
  p_server :: "nat list"
  p_server_conf :: server_conf
  p_uuid :: string
  p_tunneladdress :: string
  p_privkey :: string
  p_pubkey :: string
  p_psk :: string
  p_endpoint :: string
  p_dns :: string
  p_name :: string

definition str_or_None :: "string option \<Rightarrow> string" where
  "str_or_None x = (case x of None \<Rightarrow> ''None'' | Some s \<Rightarrow> s)"

definition prepare :: "env \<Rightarrow> element \<Rightarrow> failure + plan" where
  "prepare env root =
     (case choose_server env root of
        Inl e \<Rightarrow> Inl e
      | Inr server_path \<Rightarrow>
          (case get_node root server_path of
             None \<Rightarrow> Inl (Uncaught IndexError)
           | Some server \<Rightarrow>
               (case allocate server
                       (nodes_at root
                          (select_children root (\<lambda>e. True)
                             (find_tags root [''OPNsense'', ''wireguard'', ''client'', ''clients''])))
                of
                  Inl e \<Rightarrow> Inl e
                | Inr (server_conf, safe_ip, client_count) \<Rightarrow>
                    (case wg_keys env of
                       None \<Rightarrow> Inl (Exit (- 1) [''failed!''])
                     | Some (privkey, pubkey, shared_key) \<Rightarrow>
                         let endpoint =
                               (if user_prompts then input_or (endpoint_input env) default_endpoint
                                else default_endpoint);
                             dns = (if user_prompts then input_or (dns_input env) default_dns
                                    else default_dns);
                             generated_client_name = default_client client_count;
                             client_name =
                               (if user_prompts
                                then input_or (client_name_input env) generated_client_name
                                else generated_client_name)
                         in if user_prompts \<and> py_lower (you_sure env) \<noteq> ''y''
                            then Inl user_quit
                            else Inr \<lparr>p_server = server_path, p_server_conf = server_conf,
                                      p_uuid = uuid4 env,
                                      p_tunneladdress = str_of_ip safe_ip @ ''/32'',
                                      p_privkey = privkey, p_pubkey = pubkey, p_psk = shared_key,
                                      p_endpoint =
                                        endpoint @ '':'' @ str_or_None (sc_port server_conf),
                                      p_dns = dns, p_name = client_name\<rparr>))))"

text \<open>\<open>server.find('peers').text = t\<close> on the children of the server.\<close>

fun set_first_text :: "string \<Rightarrow> string option \<Rightarrow> element list \<Rightarrow> element list" where
  "set_first_text name t [] = []"
| "set_first_text name t (e # es) =
     (if tag e = name then set_text t e # es else e # set_first_text name t es)"

definition set_child_text :: "string \<Rightarrow> string option \<Rightarrow> element \<Rightarrow> element" where
  "set_child_text name t e =
     Element (tag e) (attrib e) (etext e) (tail e) (set_first_text name t (children e))"

text \<open>Lines 212--236: the new client is added under the first child of
  \<open>OPNsense/wireguard/client\<close>, and the server's peers field is rewritten.\<close>

definition edit_tree :: "plan \<Rightarrow> element \<Rightarrow> failure + element" where
  "edit_tree pl root =
     (case select_children root (\<lambda>e. True) (find_tags root [''OPNsense'', ''wireguard'', ''client''])
      of
        [] \<Rightarrow> Inl (Uncaught IndexError)
      | clients_path # _ \<Rightarrow>
          (case get_node root clients_path of
             None \<Rightarrow> Inl (Uncaught IndexError)
           | Some clients_node \<Rightarrow>
               (case add_formatted_subelement clients_node ''client''
                       [(''uuid'', p_uuid pl)]
                       [(''enabled'', Some ''0''),
                        (''name'', Some (p_name pl)),
                        (''pubkey'', Some (p_pubkey pl)),
                        (''psk'', Some (p_psk pl)),
                        (''tunneladdress'', Some (p_tunneladdress pl)),
                        (''serveraddress'', None),
                        (''serverport'', sc_port (p_server_conf pl)),
                        (''keepalive'', Some ''25'')]
                       ''  ''
                of
                  Inl e \<Rightarrow> Inl e
                | Inr clients_node' \<Rightarrow>
                    let root' = update_node (\<lambda>_. clients_node') clients_path root in
                    (case get_node root' (p_server pl) of
                       None \<Rightarrow> Inl (Uncaught AttributeError)
                     | Some server \<Rightarrow>
                         if find_child server ''peers'' = None
                         then Inl (Uncaught AttributeError)
                         else Inr (update_node
                                     (set_child_text ''peers''
                                        (Some (updated_peers (sc_peers (p_server_conf pl))
                                                 (p_uuid pl))))
                                     (p_server pl) root')))))"

text \<open>Lines 238--253: the tree is written over the document; when that fails the backup is
  copied back, and when that fails too the run exits.\<close>

definition save :: "env \<Rightarrow> element \<Rightarrow> world \<Rightarrow> failure option \<times> world" where
  "save env root w =
     (case write_file (write_io env) opnsense_config_xml (serialize_xml root)
             (log (Printed ''Attempting to save xml file...'') w) of
        (True, w') \<Rightarrow> (None, log (Printed ''Done!'') w')
      | (False, w') \<Rightarrow>
          (case copy2 (restore_io env) backup_path opnsense_config_xml
                  (log (Printed ''Error writing xml file. Restoring backup, just in case...'') w')
           of
             (True, w'') \<Rightarrow> (None, log (Printed ''Done!'') w'')
           | (False, w'') \<Rightarrow>
               (Some (Exit (- 1) [''Can't restore xml. You'll need to fix this yourself. Sorry!'']),
                w'')))"

text \<open>Lines 255--275: the client's profile, written to \<open>name.conf\<close>.\<close>

definition client_text :: "plan \<Rightarrow> string" where
  "client_text pl =
     concat (map (\<lambda>line. [CHR 0x0A] @ ''    '' @ line)
       [''[Interface]'',
        ''PrivateKey = '' @ p_privkey pl,
        ''Address = '' @ p_tunneladdress pl,
        ''DNS = '' @ p_dns pl]) @
     [CHR 0x0A] @
     concat (map (\<lambda>line. [CHR 0x0A] @ ''    '' @ line)
       [''[Peer]'',
        ''PublicKey = '' @ str_or_None (sc_pubkey (p_server_conf pl)),
        ''PresharedKey = '' @ p_psk pl,
        ''AllowedIPs = '' @ default_network,
        ''Endpoint = '' @ p_endpoint pl,
        ''PersistentKeepalive = 25'']) @
     [CHR 0x0A] @ ''    ''"

definition write_profile :: "env \<Rightarrow> plan \<Rightarrow> world \<Rightarrow> failure option \<times> world" where
  "write_profile env pl w =
     (case write_file (profile_io env) (p_name pl @ ''.conf'') (client_text pl) w of
        (True, w') \<Rightarrow> (None, w')
      | (False, w') \<Rightarrow> (Some (Uncaught OSError), w'))"

text \<open>Lines 204--275: the backup, the edit of the tree in memory, the write with its
  rollback, the profile.  The restart of the service and the QR code that end the script
  are commands of the appliance and are left out.\<close>

definition commit :: "env \<Rightarrow> plan \<Rightarrow> element \<Rightarrow> world \<Rightarrow> failure option \<times> world" where
  "commit env pl root w =
     (case copy2 (backup_io env) opnsense_config_xml backup_path
             (log (Printed ''Backing up xml file...'') w) of
        (False, w1) \<Rightarrow> (Some (Exit (- 1) [''Unable to backup xml file. Not proceeding!'']), w1)
      | (True, w1) \<Rightarrow>
          let w2 = log (Printed ''Attempting to edit xml file...'')
                     (log (Printed (''Backup successful'' @ [CHR 0x0A])) w1)
          in (case edit_tree pl root of
                Inl e \<Rightarrow> (Some e, w2)
              | Inr root' \<Rightarrow>
                  (case save env root' (log (Printed ''Done...'') w2) of
                     (Some e, w3) \<Rightarrow> (Some e, w3)
                   | (None, w3) \<Rightarrow>
                       write_profile env pl
                         (log (Printed ''Attempting to create config file...'') w3))))"

text \<open>
  \<open>main\<close>.  A missing document ends the run (lines 73--75).  A document that does not parse
  makes line 83 evaluate the name \<open>ParseError\<close>, which the script never imports:
  \<open>NameError\<close>, uncaught.  Up to the backup step nothing is written.
\<close>

definition main :: "env \<Rightarrow> world \<Rightarrow> failure option \<times> world" where
  "main env w =
     (case package_step env of
        Some e \<Rightarrow> (Some e, w)
      | None \<Rightarrow>
          (case files w opnsense_config_xml of
             None \<Rightarrow> (Some (Exit (- 1) [''Failed. Can't find the file?'']), w)
           | Some config_xml \<Rightarrow>
               (case fromstring config_xml of
                  None \<Rightarrow> (Some (Uncaught NameError), w)
                | Some root \<Rightarrow>
                    (case prepare env root of
                       Inl e \<Rightarrow> (Some e, w)
                     | Inr pl \<Rightarrow> commit env pl root w))))"

section \<open>Documents in the form that \<open>ElementTree.write\<close> gives them\<close>








section \<open>Reading the history of a run\<close>

text \<open>The events that open a file for writing, and the histories in which every such
  event on the configuration document comes after a successful backup of it (\<open>made\<close>: a
  backup was made before the history starts).\<close>

fun writes_to :: "string \<Rightarrow> event \<Rightarrow> bool" where
  "writes_to path (Written p) = (p = path)"
| "writes_to path (Write_failed p) = (p = path)"
| "writes_to path (Copied src dst) = (dst = path)"
| "writes_to path (Copy_failed src dst) = (dst = path)"
| "writes_to path (Printed s) = False"

fun guarded_by_backup :: "bool \<Rightarrow> event list \<Rightarrow> bool" where
  "guarded_by_backup made [] = True"
| "guarded_by_backup made (ev # evs) =
     ((\<not> writes_to opnsense_config_xml ev \<or> made)
      \<and> guarded_by_backup (made \<or> ev = Copied opnsense_config_xml backup_path) evs)"

text \<open>A tree and a plan for the examples of the save step.\<close>

definition small_root :: element where
  "small_root =
     Element ''opnsense'' [] None None
       [Element ''OPNsense'' [] None None
          [Element ''wireguard'' [] None None
             [Element ''client'' [] None None
                [Element ''clients'' [] None (Some [CHR 0x0A]) []],
              Element ''server'' [] None None
                [Element ''servers'' [] None None
                   [Element ''server'' [] None None
                      [Element ''instance'' [] (Some ''0'') None [],
                       Element ''peers'' [] None None []]]]]]]"

definition small_plan :: plan where
  "small_plan =
     \<lparr>p_server = [0, 0, 1, 0, 0],
      p_server_conf = \<lparr>sc_peers = [], sc_pubkey = Some ''PUB'', sc_tunneladdress = ''10.0.0.1'',
                        sc_netmask = 29, sc_port = Some ''51820''\<rparr>,
      p_uuid = ''NEW'', p_tunneladdress = ''10.0.0.2/32'', p_privkey = ''PRIV'',
      p_pubkey = ''CPUB'', p_psk = ''PSK'', p_endpoint = ''server.address.com:51820'',
      p_dns = ''192.168.0.1'', p_name = ''client0''\<rparr>"

definition small_env :: "io_result \<Rightarrow> io_result \<Rightarrow> io_result \<Rightarrow> env" where
  "small_env backup write restore =
     \<lparr>add_pkg = ''n'', instance_input = [], uuid4 = ''NEW'',
      wg_keys = Some (''PRIV'', ''CPUB'', ''PSK''), endpoint_input = [], dns_input = [],
      client_name_input = [], you_sure = ''y'', backup_io = backup, write_io = write,
      restore_io = restore, profile_io = Succeeds\<rparr>"

definition small_world :: world where
  "small_world = \<lparr>files = [opnsense_config_xml \<mapsto> ''<opnsense/>''], trace = []\<rparr>"

section \<open>Nodes apart from the edit\<close>


section \<open>Example documents\<close>

definition example_server :: "string \<Rightarrow> string \<Rightarrow> element" where
  "example_server tunneladdress peers =
     Element ''server'' [(''uuid'', ''S'')] None None
       [Element ''name'' [] (Some ''wg0'') None [],
        Element ''instance'' [] (Some ''0'') None [],
        Element ''pubkey'' [] (Some ''PUB'') None [],
        Element ''port'' [] (Some ''51820'') None [],
        Element ''tunneladdress'' [] (Some tunneladdress) None [],
        Element ''peers'' [] (Some peers) None []]"

definition example_client :: "string \<Rightarrow> string \<Rightarrow> element" where
  "example_client uuid tunneladdress =
     Element ''client'' [(''uuid'', uuid)] None None
       [Element ''enabled'' [] (Some ''1'') None [],
        Element ''name'' [] (Some ''phone'') None [],
        Element ''tunneladdress'' [] (Some tunneladdress) None []]"

definition server_without_pubkey_tunneladdress :: element where
  "server_without_pubkey_tunneladdress =
     Element ''server'' [(''uuid'', ''S'')] None None
       [Element ''name'' [] (Some ''wg0'') None [],
        Element ''instance'' [] (Some ''0'') None [],
        Element ''port'' [] (Some ''51820'') None []]"

text \<open>A document whose server lists the client \<open>A\<close>, and the client's address does not
  parse; its tree; an operator who takes every default and confirms.\<close>

definition bad_peer_xml :: string where
  "bad_peer_xml = concat
     [''<opnsense><OPNsense><wireguard><client>'',
      ''<clients><client uuid='' @ [CHR 0x22] @ ''A'' @ [CHR 0x22] @ ''><enabled>1</enabled>'',
      ''<name>phone</name><tunneladdress>10.0.0.300/32</tunneladdress>'',
      ''</client></clients></client><server>'',
      ''<servers><server uuid='' @ [CHR 0x22] @ ''S'' @ [CHR 0x22] @ ''><name>wg0</name>'',
      ''<instance>0</instance><pubkey>PUB</pubkey>'',
      ''<port>51820</port><tunneladdress>10.0.0.1/29</tunneladdress>'',
      ''<peers>A</peers></server></servers>'',
      ''</server></wireguard></OPNsense></opnsense>'']"

definition bad_peer_root :: element where
  "bad_peer_root =
     Element ''opnsense'' [] None None
       [Element ''OPNsense'' [] None None
          [Element ''wireguard'' [] None None
             [Element ''client'' [] None None
                [Element ''clients'' [] None None [example_client ''A'' ''10.0.0.300/32'']],
              Element ''server'' [] None None
                [Element ''servers'' [] None None [example_server ''10.0.0.1/29'' ''A'']]]]]"

definition bad_peer_world :: world where
  "bad_peer_world = \<lparr>files = [opnsense_config_xml \<mapsto> bad_peer_xml], trace = []\<rparr>"






section \<open>Facts about splitting and joining\<close>

lemma str_split_not_Nil: "str_split sep s \<noteq> []"
  by (induction s) (auto split: list.splits)

lemma str_join_split: "str_join [sep] (str_split sep s) = s"
proof (induction s)
  case Nil
  show ?case by simp
next
  case (Cons c cs)
  show ?case
  proof (cases "c = sep")
    case True
    obtain p ps where "str_split sep cs = p # ps"
      using str_split_not_Nil [of sep cs] by (cases "str_split sep cs") auto
    with Cons True show ?thesis by simp
  next
    case False
    obtain p ps where sp: "str_split sep cs = p # ps"
      using str_split_not_Nil [of sep cs] by (cases "str_split sep cs") auto
    with Cons False show ?thesis by (cases ps) auto
  qed
qed

lemma str_join_snoc:
  "ps \<noteq> [] \<Longrightarrow> str_join sep (ps @ [x]) = str_join sep ps @ sep @ x"
  by (induction sep ps rule: str_join.induct) auto

lemma str_join_parse_peers: "str_join '','' (parse_peers (Some p)) = p"
proof -
  have "str_join [CHR '',''] (str_split CHR '','' p) = p"
    by (rule str_join_split)
  then show ?thesis by (simp add: parse_peers_def)
qed

lemma parse_peers_Nil_iff: "parse_peers (Some p) = [] \<longleftrightarrow> p = []"
  by (simp add: parse_peers_def str_split_not_Nil)

text \<open>
  Claim C7.  For every existing peers field \<open>p\<close> and new identifier \<open>x\<close>, the list written
  back is the existing identifiers in their order followed by \<open>x\<close>, and its comma-joined
  text is \<open>x\<close> alone when \<open>p\<close> is empty and \<open>p\<close>, a comma and \<open>x\<close> otherwise; an empty field
  gives \<open>X\<close> and the field \<open>A,B\<close> gives \<open>A,B,X\<close>.
\<close>

theorem peers_field_appended:
  "updated_peers (parse_peers (Some p)) x = (if p = [] then x else p @ '','' @ x)
   \<and> updated_peers (parse_peers (Some [])) ''X'' = ''X''
   \<and> parse_peers (Some ''A,B'') = [''A'', ''B'']
   \<and> updated_peers (parse_peers (Some ''A,B'')) ''X'' = ''A,B,X''"
proof -
  have general: "updated_peers (parse_peers (Some q)) y = (if q = [] then y else q @ '','' @ y)"
    for q y
  proof (cases "q = []")
    case True
    then show ?thesis by (simp add: updated_peers_def parse_peers_def)
  next
    case False
    then have "parse_peers (Some q) \<noteq> []" by (simp add: parse_peers_Nil_iff)
    then have "str_join '','' (parse_peers (Some q) @ [y])
        = str_join '','' (parse_peers (Some q)) @ '','' @ y"
      by (rule str_join_snoc)
    with False show ?thesis by (simp add: updated_peers_def str_join_parse_peers)
  qed
  have ab: "parse_peers (Some ''A,B'') = [''A'', ''B'']"
    by (simp add: parse_peers_def)
  show ?thesis using general [of p x] general [of "[]" "''X''"] general [of "''A,B''" "''X''"] ab
    by simp
qed

section \<open>Evaluation of the address functions on concrete text\<close>

lemma count_righthand_zero_bits_numeral:
  "count_righthand_zero_bits number (numeral k) =
     (if number = 0 then numeral k
      else if odd number then 0
      else Suc (count_righthand_zero_bits (number div 2) (pred_numeral k)))"
  by (simp add: numeral_eq_Suc)

lemmas ip_eval =
  ip_network_def ip_int_from_string_def parse_octet_def is_digit_def nat_of_digits_def
  digit_val_def make_netmask_def prefix_from_prefix_string_def prefix_from_ip_string_def
  prefix_from_ip_int_def ip_address_def count_righthand_zero_bits_numeral

lemma str_of_nat_numeral:
  "str_of_nat (numeral k) =
     (if (numeral k :: nat) < 10 then [digit_char (numeral k)]
      else str_of_nat (numeral k div 10) @ [digit_char (numeral k mod 10)])"
  "str_of_nat 0 = ''0''"
  "str_of_nat 1 = ''1''"
  "str_of_nat (Suc 0) = ''1''"
  by (simp_all add: str_of_nat.simps [of "numeral k"] str_of_nat.simps [of 0]
        str_of_nat.simps [of 1] str_of_nat.simps [of "Suc 0"] digit_char_def)

lemmas str_eval = str_of_ip_def str_of_nat_numeral digit_char_def

lemmas elem_eval = findtext_def find_child_def get_attr_def

section \<open>Facts about the host list and the exclusion loop\<close>


lemma hosts_distinct: "distinct (hosts net)"
  by (simp add: hosts_def)



lemma filter_remove1_distinct:
  "distinct xs \<Longrightarrow> filter P (remove1 a xs) = filter (\<lambda>x. x \<noteq> a \<and> P x) xs"
  by (simp add: distinct_remove1_removeAll removeAll_filter_not_eq eq_commute [of a])

lemma exclude_clients_char:
  assumes "distinct nr"
  shows "exclude_clients peers clients nr cnt =
     (let used = map client_address (listed_clients peers clients) in
      if None \<notin> set used \<and> distinct used \<and> set used \<subseteq> Some ` set nr
      then Inr (filter (\<lambda>a. Some a \<notin> set used) nr, cnt + length used)
      else Inl (Exit (- 1) [''Failed...'']))"
  using assms
proof (induction clients arbitrary: nr cnt)
  case Nil
  then show ?case by (simp add: listed_clients_def)
next
  case (Cons c cs)
  define us where "us = map client_address (listed_clients peers cs)"
  show ?case
  proof (cases "case get_attr c ''uuid'' of None \<Rightarrow> False | Some u \<Rightarrow> u \<in> set peers")
    case False
    then have "listed_clients peers (c # cs) = listed_clients peers cs"
      by (simp add: listed_clients_def)
    with False Cons show ?thesis by simp
  next
    case True
    then have l: "map client_address (listed_clients peers (c # cs)) = client_address c # us"
      by (simp add: listed_clients_def us_def)
    show ?thesis
    proof (cases "ip_network True (findtext c ''tunneladdress'')")
      case None
      then have "client_address c = None" by (simp add: client_address_def)
      with True None l show ?thesis by (simp add: Let_def)
    next
      case (Some n)
      define a where "a = network_address n"
      have ca: "client_address c = Some a" using Some by (simp add: client_address_def a_def)
      show ?thesis
      proof (cases "a \<in> set nr")
        case False
        then have "\<not> set (Some a # us) \<subseteq> Some ` set nr" by auto
        with False True Some l ca show ?thesis by (simp add: Let_def a_def [symmetric])
      next
        case in_nr: True
        have d: "distinct (remove1 a nr)" using Cons.prems by simp
        have s: "set (remove1 a nr) = set nr - {a}" using Cons.prems by simp
        have step: "exclude_clients peers (c # cs) nr cnt
            = exclude_clients peers cs (remove1 a nr) (cnt + 1)"
          using True Some in_nr by (simp add: a_def)
        have ih: "exclude_clients peers cs (remove1 a nr) (cnt + 1) =
            (if None \<notin> set us \<and> distinct us \<and> set us \<subseteq> Some ` set (remove1 a nr)
             then Inr (filter (\<lambda>x. Some x \<notin> set us) (remove1 a nr), cnt + 1 + length us)
             else Inl (Exit (- 1) [''Failed...'']))"
          using Cons.IH [OF d, of "cnt + 1"] by (simp add: Let_def us_def)
        have cond: "(None \<notin> set us \<and> distinct us \<and> set us \<subseteq> Some ` set (remove1 a nr))
            \<longleftrightarrow> (None \<notin> set (Some a # us) \<and> distinct (Some a # us)
                  \<and> set (Some a # us) \<subseteq> Some ` set nr)"
          using in_nr s by auto
        have res: "filter (\<lambda>x. Some x \<notin> set us) (remove1 a nr)
            = filter (\<lambda>x. Some x \<notin> set (Some a # us)) nr"
          using filter_remove1_distinct [OF Cons.prems, of "\<lambda>x. Some x \<notin> set us" a]
          by (simp add: eq_commute [of a])
        show ?thesis
          unfolding step ih cond res l ca Let_def by simp
      qed
    qed
  qed
qed

section \<open>The example documents evaluated\<close>

lemma example_server_29:
  "parse_server_details (example_server ''10.0.0.1/29'' ''A'') =
     Inr (\<lparr>sc_peers = [''A''], sc_pubkey = Some ''PUB'', sc_tunneladdress = ''10.0.0.1'',
            sc_netmask = 29, sc_port = Some ''51820''\<rparr>,
          \<lparr>cc_net_range = [167772162, 167772163, 167772164, 167772165, 167772166]\<rparr>)"
  by (simp add: example_server_def parse_server_details_def parse_peers_def elem_eval ip_eval
        str_eval hosts_def broadcast_address_def)


lemma example_client_listed:
  "listed_clients [''A''] [example_client ''A'' t] = [example_client ''A'' t]"
  by (simp add: listed_clients_def example_client_def elem_eval)

section \<open>Claims about validation and allocation\<close>

lemma validation_lists_missing:
  assumes "ip_network False (findtext server ''tunneladdress'') = Some net"
      and "findtext server ''pubkey'' = None \<or> findtext server ''port'' = None"
  shows "parse_server_details server =
     Inl (Exit (- 1)
       [''We couldn't parse these fields:'',
        str_join [CHR 0x0A]
          ((if findtext server ''pubkey'' = None then [''public key (pubkey)''] else []) @
           (if findtext server ''port'' = None then [''port''] else []))])"
  using assms
  by (cases "findtext server ''tunneladdress''")
     (auto simp: parse_server_details_def Let_def ip_network_def)

text \<open>
  Claim C4.  The claim asks for one error that lists every missing or unparseable field
  among pubkey, tunneladdress and port.  When the tunneladdress is missing, or is a text
  without a colon that does not parse, \<open>parse_server_details\<close> never reaches its report: it
  ends with the uncaught \<open>UnboundLocalError\<close> of line 404, whatever else is missing.
\<close>

theorem bad_tunneladdress_is_not_reported:
  assumes "ipv4_text (findtext server ''tunneladdress'')"
      and "ip_network False (findtext server ''tunneladdress'') = None"
  shows "parse_server_details server = Inl (Uncaught UnboundLocalError)"
  using assms(2)
  by (cases "findtext server ''tunneladdress''") (simp_all add: parse_server_details_def Let_def)

theorem bad_tunneladdress_is_not_reported_witness:
  "findtext server_without_pubkey_tunneladdress ''pubkey'' = None
   \<and> findtext server_without_pubkey_tunneladdress ''tunneladdress'' = None
   \<and> parse_server_details server_without_pubkey_tunneladdress = Inl (Uncaught UnboundLocalError)"
proof -
  have v4: "ipv4_text (findtext server_without_pubkey_tunneladdress ''tunneladdress'')"
    by (simp add: server_without_pubkey_tunneladdress_def elem_eval ipv4_text_def)
  have h: "ip_network False (findtext server_without_pubkey_tunneladdress ''tunneladdress'') = None"
    by (simp add: server_without_pubkey_tunneladdress_def elem_eval ip_network_def)
  show ?thesis
    using bad_tunneladdress_is_not_reported [OF v4 h]
    by (simp add: server_without_pubkey_tunneladdress_def elem_eval)
qed

text \<open>
  Claim C10.  The claim says that nothing but an address absent from the list is passed
  over in silence.  A server whose tunneladdress carries a dotted netmask is accepted by
  \<open>ip_network\<close>; the text left after line 410 is no address, \<open>ip_address\<close> raises
  \<open>ValueError\<close>, and line 415 passes over it: the server's own address 10.0.0.1 stays in the
  range and is handed to the new client.
\<close>

theorem unparsed_server_address_is_swallowed:
  "ip_address ''10.0.0.1/255.255.255.248'' = None
   \<and> allocate (example_server ''10.0.0.1/255.255.255.248'' ''A'') [] =
       Inr (\<lparr>sc_peers = [''A''], sc_pubkey = Some ''PUB'',
              sc_tunneladdress = ''10.0.0.1/255.255.255.248'', sc_netmask = 29,
              sc_port = Some ''51820''\<rparr>, 167772161, 0)
   \<and> str_of_ip 167772161 = ''10.0.0.1''"
  by (simp add: allocate_def first_free_def example_server_def parse_server_details_def
        parse_peers_def elem_eval ip_eval str_eval hosts_def broadcast_address_def)




text \<open>
  Claim C9.  A server record with tunneladdress 10.0.0.1/24 (and its pubkey and port
  present) and exactly one listed client, at 10.0.0.2/32: the address chosen for the new
  client is 10.0.0.3.
\<close>

theorem example_allocation:
  assumes ta: "findtext server ''tunneladdress'' = Some ''10.0.0.1/24''"
      and pk: "findtext server ''pubkey'' \<noteq> None"
      and pt: "findtext server ''port'' \<noteq> None"
      and one: "listed_clients (parse_peers (findtext server ''peers'')) clients = [client]"
      and ca: "findtext client ''tunneladdress'' = Some ''10.0.0.2/32''"
  shows "\<exists>sc. allocate server clients = Inr (sc, 167772163, 1)
           \<and> str_of_ip 167772163 = ''10.0.0.3''"
proof -
  have net: "ip_network False (Some ''10.0.0.1/24'')
      = Some \<lparr>network_address = 167772160, prefixlen = 24\<rparr>"
    by (simp add: ip_eval)
  have srv: "ip_address ''10.0.0.1'' = Some 167772161"
    by (simp add: ip_eval)
  obtain r where h: "hosts \<lparr>network_address = 167772160, prefixlen = 24\<rparr>
      = 167772161 # 167772162 # 167772163 # r"
    by (simp add: hosts_def broadcast_address_def upt_conv_Cons)
  have "\<exists>sc cc. parse_server_details server = Inr (sc, cc)
      \<and> sc_peers sc = parse_peers (findtext server ''peers'')
      \<and> cc_net_range cc = 167772162 # 167772163 # r"
    using ta pk pt net srv h
    by (auto simp: parse_server_details_def Let_def str_eval)
  then obtain sc cc where p: "parse_server_details server = Inr (sc, cc)"
      and peers: "sc_peers sc = parse_peers (findtext server ''peers'')"
      and range: "cc_net_range cc = 167772162 # 167772163 # r"
    by blast
  have hd: "distinct (hosts \<lparr>network_address = 167772160, prefixlen = 24\<rparr>)"
    by (rule hosts_distinct)
  have d: "distinct (cc_net_range cc)" using hd h range by simp
  have used: "map client_address (listed_clients (sc_peers sc) clients) = [Some 167772162]"
    using one ca peers by (simp add: client_address_def ip_eval)
  have nr: "167772162 \<notin> set r" "167772163 \<notin> set r" using hd h by auto
  have "exclude_clients (sc_peers sc) clients (cc_net_range cc) 0
      = Inr (167772163 # filter (\<lambda>a. a \<noteq> 167772162) r, 1)"
    using exclude_clients_char [OF d, of "sc_peers sc" clients 0] used range nr
    by (simp add: Let_def)
  then have "allocate server clients = Inr (sc, 167772163, 1)"
    using p by (simp add: allocate_def first_free_def)
  moreover have "str_of_ip 167772163 = ''10.0.0.3''"
    by (simp add: str_eval)
  ultimately show ?thesis by blast
qed

theorem example_allocation_witness:
  "\<exists>sc. allocate (example_server ''10.0.0.1/24'' ''A'')
          [example_client ''B'' ''10.0.0.9/32'', example_client ''A'' ''10.0.0.2/32'']
        = Inr (sc, 167772163, 1)
      \<and> str_of_ip 167772163 = ''10.0.0.3''"
  by (rule example_allocation [where client = "example_client ''A'' ''10.0.0.2/32''"])
     (simp_all add: example_server_def example_client_def elem_eval parse_peers_def
        listed_clients_def)

section \<open>Claims about the backup, the write and the rollback\<close>

lemma backup_path_eval: "backup_path = ''/conf/config.wgback''"
  by (simp add: backup_path_def opnsense_config_xml_def)

lemma paths_differ:
  "opnsense_config_xml \<noteq> backup_path"
  "name @ ''.conf'' \<noteq> opnsense_config_xml"
  "name @ ''.conf'' \<noteq> backup_path"
proof -
  show "opnsense_config_xml \<noteq> backup_path"
    by (simp add: backup_path_eval opnsense_config_xml_def)
  have l: "last (name @ ''.conf'') = CHR ''f''" by simp
  show "name @ ''.conf'' \<noteq> opnsense_config_xml"
  proof
    assume "name @ ''.conf'' = opnsense_config_xml"
    then have "last (name @ ''.conf'') = last opnsense_config_xml" by simp
    then show False unfolding l by (simp add: opnsense_config_xml_def)
  qed
  show "name @ ''.conf'' \<noteq> backup_path"
  proof
    assume "name @ ''.conf'' = backup_path"
    then have "last (name @ ''.conf'') = last backup_path" by simp
    then show False unfolding l by (simp add: backup_path_eval)
  qed
qed

lemma guarded_by_backup_nth:
  "guarded_by_backup made evs \<Longrightarrow> i < length evs \<Longrightarrow> writes_to opnsense_config_xml (evs ! i)
   \<Longrightarrow> made \<or> Copied opnsense_config_xml backup_path \<in> set (take i evs)"
proof (induction evs arbitrary: made i)
  case Nil
  then show ?case by simp
next
  case (Cons ev evs)
  show ?case
  proof (cases i)
    case 0
    with Cons.prems show ?thesis by auto
  next
    case (Suc j)
    with Cons.prems Cons.IH [of "made \<or> ev = Copied opnsense_config_xml backup_path" j]
    show ?thesis by auto
  qed
qed

lemma main_cases:
  "(\<exists>e. main env w = (Some e, w)) \<or> (\<exists>pl root. main env w = commit env pl root w)"
  by (auto simp: main_def split: option.splits sum.splits)

lemmas commit_unfold =
  commit_def Let_def save_def write_profile_def copy2_def write_file_def log_def

lemma commit_history:
  "\<exists>evs. trace (snd (commit env pl root w)) = trace w @ evs
     \<and> guarded_by_backup False evs
     \<and> (Copied opnsense_config_xml backup_path \<in> set evs \<longrightarrow>
          files (snd (commit env pl root w)) backup_path = files w opnsense_config_xml)
     \<and> (Copied opnsense_config_xml backup_path \<notin> set evs \<longrightarrow>
          fst (commit env pl root w) = Some (Exit (- 1) [''Unable to backup xml file. Not proceeding!''])
          \<and> files (snd (commit env pl root w)) opnsense_config_xml = files w opnsense_config_xml)"
  using paths_differ(1) paths_differ(2) [of "p_name pl"] paths_differ(3) [of "p_name pl"]
  by (auto simp: commit_unfold split: option.splits sum.splits io_result.splits)

lemma small_edit: "\<exists>root'. edit_tree small_plan small_root = Inr root'"
  by (simp add: edit_tree_def small_plan_def small_root_def select_children_def find_tags_def
        add_formatted_subelement_def find_child_def Let_def)

lemma small_trace_written:
  "trace (snd (commit (small_env Succeeds Succeeds Succeeds) small_plan small_root small_world))
   = [Printed ''Backing up xml file...'',
      Copied opnsense_config_xml backup_path,
      Printed (''Backup successful'' @ [CHR 0x0A]),
      Printed ''Attempting to edit xml file...'',
      Printed ''Done...'',
      Printed ''Attempting to save xml file...'',
      Written opnsense_config_xml,
      Printed ''Done!'',
      Printed ''Attempting to create config file...'',
      Written ''client0.conf'']"
proof -
  from small_edit obtain root' where "edit_tree small_plan small_root = Inr root'" by blast
  then show ?thesis
    using paths_differ(1)
    by (simp add: commit_unfold small_env_def small_world_def)
       (simp add: small_plan_def)
qed

lemma small_trace_rolled_back:
  "trace (snd (commit (small_env Succeeds (Fails None) Succeeds) small_plan small_root small_world))
   = [Printed ''Backing up xml file...'',
      Copied opnsense_config_xml backup_path,
      Printed (''Backup successful'' @ [CHR 0x0A]),
      Printed ''Attempting to edit xml file...'',
      Printed ''Done...'',
      Printed ''Attempting to save xml file...'',
      Write_failed opnsense_config_xml,
      Printed ''Error writing xml file. Restoring backup, just in case...'',
      Copied backup_path opnsense_config_xml,
      Printed ''Done!'',
      Printed ''Attempting to create config file...'',
      Written ''client0.conf'']"
proof -
  from small_edit obtain root' where "edit_tree small_plan small_root = Inr root'" by blast
  then show ?thesis
    using paths_differ(1) paths_differ(1) [symmetric]
    by (simp add: commit_unfold small_env_def small_world_def)
       (simp add: small_plan_def)
qed

lemma small_trace_not_restored:
  "trace (snd (commit (small_env Succeeds (Fails None) (Fails (Some ''<op''))) small_plan
                 small_root small_world))
   = [Printed ''Backing up xml file...'',
      Copied opnsense_config_xml backup_path,
      Printed (''Backup successful'' @ [CHR 0x0A]),
      Printed ''Attempting to edit xml file...'',
      Printed ''Done...'',
      Printed ''Attempting to save xml file...'',
      Write_failed opnsense_config_xml,
      Printed ''Error writing xml file. Restoring backup, just in case...'',
      Copy_failed backup_path opnsense_config_xml]"
proof -
  from small_edit obtain root' where "edit_tree small_plan small_root = Inr root'" by blast
  then show ?thesis
    using paths_differ(1) paths_differ(1) [symmetric]
    by (simp add: commit_unfold small_env_def small_world_def)
qed

text \<open>
  Claim C6.  A run either ends before the backup step with no file changed, or goes through
  the backup, the edit, the write and the profile with the plan it has settled.  Whatever
  the plan and the tree: every event of the history that opens the configuration document
  for writing comes after a successful copy of the document to the backup path; when that
  copy was made, the backup holds the document as it was before the run; when it was not,
  the run exits with \<open>Unable to backup xml file. Not proceeding!\<close> and the document is as
  it was.
\<close>

theorem no_write_before_backup:
  "((\<exists>e. main env w = (Some e, w)) \<or> (\<exists>pl root. main env w = commit env pl root w))
   \<and> (\<exists>evs. trace (snd (commit env pl root w)) = trace w @ evs
        \<and> (\<forall>i < length evs. writes_to opnsense_config_xml (evs ! i) \<longrightarrow>
              Copied opnsense_config_xml backup_path \<in> set (take i evs))
        \<and> (Copied opnsense_config_xml backup_path \<in> set evs \<longrightarrow>
              files (snd (commit env pl root w)) backup_path = files w opnsense_config_xml)
        \<and> (Copied opnsense_config_xml backup_path \<notin> set evs \<longrightarrow>
              fst (commit env pl root w)
                = Some (Exit (- 1) [''Unable to backup xml file. Not proceeding!''])
              \<and> files (snd (commit env pl root w)) opnsense_config_xml
                  = files w opnsense_config_xml))"
proof -
  from commit_history [of env pl root w] obtain evs where
    t: "trace (snd (commit env pl root w)) = trace w @ evs" and
    g: "guarded_by_backup False evs" and
    rest: "Copied opnsense_config_xml backup_path \<in> set evs \<longrightarrow>
             files (snd (commit env pl root w)) backup_path = files w opnsense_config_xml"
          "Copied opnsense_config_xml backup_path \<notin> set evs \<longrightarrow>
             fst (commit env pl root w)
               = Some (Exit (- 1) [''Unable to backup xml file. Not proceeding!''])
             \<and> files (snd (commit env pl root w)) opnsense_config_xml
                 = files w opnsense_config_xml"
    by blast
  have "\<forall>i < length evs. writes_to opnsense_config_xml (evs ! i) \<longrightarrow>
          Copied opnsense_config_xml backup_path \<in> set (take i evs)"
    using guarded_by_backup_nth [OF g] by blast
  with t rest main_cases [of env w] show ?thesis by blast
qed

theorem no_write_before_backup_witness:
  "trace (snd (commit (small_env Succeeds Succeeds Succeeds) small_plan small_root small_world)) ! 6
     = Written opnsense_config_xml
   \<and> Copied opnsense_config_xml backup_path
       \<in> set (take 6 (trace (snd (commit (small_env Succeeds Succeeds Succeeds) small_plan
                                      small_root small_world))))
   \<and> files (snd (commit (small_env Succeeds Succeeds Succeeds) small_plan small_root small_world))
       backup_path = Some ''<opnsense/>''
   \<and> fst (commit (small_env (Fails None) Succeeds Succeeds) small_plan small_root small_world)
       = Some (Exit (- 1) [''Unable to backup xml file. Not proceeding!''])
   \<and> files (snd (commit (small_env (Fails None) Succeeds Succeeds) small_plan small_root
                     small_world)) opnsense_config_xml = Some ''<opnsense/>''"
proof -
  let ?ok = "commit (small_env Succeeds Succeeds Succeeds) small_plan small_root small_world"
  let ?ko = "commit (small_env (Fails None) Succeeds Succeeds) small_plan small_root small_world"
  have w0: "files small_world opnsense_config_xml = Some ''<opnsense/>''"
       "trace small_world = []"
    by (simp_all add: small_world_def)
  have ko: "trace (snd ?ko)
      = [Printed ''Backing up xml file...'', Copy_failed opnsense_config_xml backup_path]"
    using paths_differ(1) by (simp add: commit_unfold small_env_def small_world_def)
  from no_write_before_backup [of "small_env Succeeds Succeeds Succeeds" small_world
      small_plan small_root]
  have ok_all: "(\<forall>i < 10. writes_to opnsense_config_xml (trace (snd ?ok) ! i) \<longrightarrow>
            Copied opnsense_config_xml backup_path \<in> set (take i (trace (snd ?ok))))
      \<and> (Copied opnsense_config_xml backup_path \<in> set (trace (snd ?ok)) \<longrightarrow>
            files (snd ?ok) backup_path = Some ''<opnsense/>'')"
    using w0 by (auto simp: small_trace_written)
  from no_write_before_backup [of "small_env (Fails None) Succeeds Succeeds" small_world
      small_plan small_root]
  have ko_all: "Copied opnsense_config_xml backup_path \<notin> set (trace (snd ?ko)) \<longrightarrow>
      fst ?ko = Some (Exit (- 1) [''Unable to backup xml file. Not proceeding!''])
      \<and> files (snd ?ko) opnsense_config_xml = Some ''<opnsense/>''"
    using w0 by auto
  have six: "trace (snd ?ok) ! 6 = Written opnsense_config_xml"
    by (simp add: small_trace_written)
  have "Copied opnsense_config_xml backup_path \<in> set (take 6 (trace (snd ?ok)))"
    using ok_all six by auto
  moreover have "files (snd ?ok) backup_path = Some ''<opnsense/>''"
    using ok_all by (simp add: small_trace_written)
  moreover have "fst ?ko = Some (Exit (- 1) [''Unable to backup xml file. Not proceeding!''])
      \<and> files (snd ?ko) opnsense_config_xml = Some ''<opnsense/>''"
    using ko_all by (simp add: ko)
  ultimately show ?thesis using six by blast
qed

text \<open>
  Claim C5.  Let the write of the changed document fail in a run through the save step
  (the backup was then made).  When the copy back from the backup succeeds, the document
  on disk is the document as it was before the run, and the run goes on; when the copy
  back fails, the run exits with \<open>Can't restore xml. You'll need to fix this yourself.
  Sorry!\<close>, an outcome that no run with a successful copy back has.
\<close>

theorem failed_write_is_rolled_back:
  assumes "trace (snd (commit env pl root w)) = trace w @ evs"
      and "Write_failed opnsense_config_xml \<in> set evs"
  shows "Copied opnsense_config_xml backup_path \<in> set evs
     \<and> (if Copied backup_path opnsense_config_xml \<in> set evs
        then files (snd (commit env pl root w)) opnsense_config_xml = files w opnsense_config_xml
             \<and> files w opnsense_config_xml \<noteq> None
             \<and> fst (commit env pl root w)
                 \<noteq> Some (Exit (- 1) [''Can't restore xml. You'll need to fix this yourself. Sorry!''])
        else fst (commit env pl root w)
               = Some (Exit (- 1) [''Can't restore xml. You'll need to fix this yourself. Sorry!''])
             \<and> Copy_failed backup_path opnsense_config_xml \<in> set evs)"
  using assms paths_differ(1) paths_differ(2) [of "p_name pl"] paths_differ(3) [of "p_name pl"]
  by (auto simp: commit_unfold split: option.splits sum.splits io_result.splits if_splits)

theorem failed_write_is_rolled_back_witness:
  "Write_failed opnsense_config_xml
     \<in> set (trace (snd (commit (small_env Succeeds (Fails None) Succeeds) small_plan small_root
                           small_world)))
   \<and> files (snd (commit (small_env Succeeds (Fails None) Succeeds) small_plan small_root
                     small_world)) opnsense_config_xml = Some ''<opnsense/>''
   \<and> Write_failed opnsense_config_xml
     \<in> set (trace (snd (commit (small_env Succeeds (Fails None) (Fails (Some ''<op'')))
                           small_plan small_root small_world)))
   \<and> fst (commit (small_env Succeeds (Fails None) (Fails (Some ''<op''))) small_plan small_root
            small_world)
       = Some (Exit (- 1) [''Can't restore xml. You'll need to fix this yourself. Sorry!''])"
proof -
  have w0: "files small_world opnsense_config_xml = Some ''<opnsense/>''"
       "trace small_world = []"
    by (simp_all add: small_world_def)
  have ne: "backup_path \<noteq> opnsense_config_xml" using paths_differ(1) by simp
  show ?thesis
    using failed_write_is_rolled_back [of "small_env Succeeds (Fails None) Succeeds" small_plan
        small_root small_world]
      failed_write_is_rolled_back [of "small_env Succeeds (Fails None) (Fails (Some ''<op''))"
        small_plan small_root small_world]
    by (simp add: w0 small_trace_rolled_back small_trace_not_restored ne)
qed

section \<open>A listed client whose address does not parse\<close>

lemma exclude_clients_unparsed:
  assumes "client \<in> set (listed_clients peers clients)"
      and "ip_network True (findtext client ''tunneladdress'') = None"
  shows "exclude_clients peers clients net_range client_count = Inl (Exit (- 1) [''Failed...''])"
  using assms
proof (induction clients arbitrary: net_range client_count)
  case Nil
  then show ?case by (simp add: listed_clients_def)
next
  case (Cons c cs)
  show ?case
  proof (cases "c = client")
    case True
    with Cons.prems show ?thesis
      by (auto simp: listed_clients_def split: option.splits)
  next
    case False
    with Cons.prems have "client \<in> set (listed_clients peers cs)"
      by (auto simp: listed_clients_def split: option.splits if_splits)
    from Cons.IH [OF this Cons.prems(2)] show ?thesis
      by (auto split: option.splits)
  qed
qed

lemma bad_peer_parse: "fromstring bad_peer_xml = Some bad_peer_root"
  by code_simp

lemma bad_peer_server: "choose_server (small_env Succeeds Succeeds Succeeds) bad_peer_root = Inr [0, 0, 1, 0, 0]"
  by code_simp

lemma bad_peer_node: "get_node bad_peer_root [0, 0, 1, 0, 0] = Some (example_server ''10.0.0.1/29'' ''A'')"
  by (simp add: bad_peer_root_def)

lemma bad_peer_clients:
  "nodes_at bad_peer_root
     (select_children bad_peer_root (\<lambda>e. True)
        (find_tags bad_peer_root [''OPNsense'', ''wireguard'', ''client'', ''clients'']))
   = [example_client ''A'' ''10.0.0.300/32'']"
  by (simp add: bad_peer_root_def nodes_at_def select_children_def find_tags_def
        List.map_filter_def)

text \<open>
  Claim C8.  Let the run reach the loop over the clients with the server's details parsed,
  all addresses IPv4 text, and let one of the clients that the server lists carry a
  \<open>tunneladdress\<close> that \<open>ip_network\<close> refuses (or none).  Then the run exits with
  \<open>Failed...\<close> and has changed no file: no address is chosen.
\<close>

theorem unparsed_peer_stops_the_run:
  assumes "package_step env = None"
      and "files w opnsense_config_xml = Some config_xml"
      and "fromstring config_xml = Some root"
      and "choose_server env root = Inr server_path"
      and "get_node root server_path = Some server"
      and "parse_server_details server = Inr (sc, cc)"
      and "clients = nodes_at root (select_children root (\<lambda>e. True)
             (find_tags root [''OPNsense'', ''wireguard'', ''client'', ''clients'']))"
      and "ipv4_text (findtext server ''tunneladdress'')"
      and "\<forall>c \<in> set (listed_clients (sc_peers sc) clients). ipv4_text (findtext c ''tunneladdress'')"
      and "client \<in> set (listed_clients (sc_peers sc) clients)"
      and "ip_network True (findtext client ''tunneladdress'') = None"
  shows "allocate server clients = Inl (Exit (- 1) [''Failed...''])
       \<and> main env w = (Some (Exit (- 1) [''Failed...'']), w)"
proof -
  have a: "allocate server clients = Inl (Exit (- 1) [''Failed...''])"
    using assms(6) exclude_clients_unparsed [OF assms(10) assms(11)]
    by (simp add: allocate_def)
  then have "prepare env root = Inl (Exit (- 1) [''Failed...''])"
    using assms(4,5,7) by (simp add: prepare_def)
  with a assms(1,2,3) show ?thesis by (simp add: main_def)
qed

theorem unparsed_peer_stops_the_run_witness:
  "findtext (example_client ''A'' ''10.0.0.300/32'') ''tunneladdress'' = Some ''10.0.0.300/32''
   \<and> ip_network True (Some ''10.0.0.300/32'') = None
   \<and> main (small_env Succeeds Succeeds Succeeds) bad_peer_world
       = (Some (Exit (- 1) [''Failed...'']), bad_peer_world)"
proof -
  have ta: "findtext (example_client ''A'' ''10.0.0.300/32'') ''tunneladdress''
      = Some ''10.0.0.300/32''"
    by (simp add: example_client_def elem_eval)
  have bad: "ip_network True (Some ''10.0.0.300/32'') = None"
    by (simp add: ip_eval)
  have h1: "package_step (small_env Succeeds Succeeds Succeeds) = None"
    by (simp add: package_step_def small_env_def parse_actions_def py_lower_def package_prompt_def)
  have h2: "files bad_peer_world opnsense_config_xml = Some bad_peer_xml"
    by (simp add: bad_peer_world_def)
  have h8: "ipv4_text (findtext (example_server ''10.0.0.1/29'' ''A'') ''tunneladdress'')"
    by (simp add: example_server_def elem_eval ipv4_text_def)
  have h9: "\<forall>c \<in> set (listed_clients (sc_peers \<lparr>sc_peers = [''A''], sc_pubkey = Some ''PUB'',
        sc_tunneladdress = ''10.0.0.1'', sc_netmask = 29, sc_port = Some ''51820''\<rparr>)
        [example_client ''A'' ''10.0.0.300/32'']). ipv4_text (findtext c ''tunneladdress'')"
    by (simp add: example_client_listed) (simp add: example_client_def elem_eval ipv4_text_def)
  have h10: "example_client ''A'' ''10.0.0.300/32''
      \<in> set (listed_clients (sc_peers \<lparr>sc_peers = [''A''], sc_pubkey = Some ''PUB'',
        sc_tunneladdress = ''10.0.0.1'', sc_netmask = 29, sc_port = Some ''51820''\<rparr>)
        [example_client ''A'' ''10.0.0.300/32''])"
    by (simp add: example_client_listed)
  have h11: "ip_network True (findtext (example_client ''A'' ''10.0.0.300/32'') ''tunneladdress'')
      = None"
    using ta bad by simp
  from unparsed_peer_stops_the_run [OF h1 h2 bad_peer_parse bad_peer_server bad_peer_node
      example_server_29 bad_peer_clients [symmetric] h8 h9 h10 h11]
  show ?thesis using ta bad by simp
qed

section \<open>Escaping and its inverse\<close>







section \<open>Reading back the tags that \<open>serialize_xml\<close> writes\<close>














section \<open>Reading back a whole document\<close>














section \<open>Building the tree from its events\<close>






section \<open>Reading back what was written\<close>











section \<open>What the edit leaves alone\<close>
















end
